theory Spec2Isabelle
  imports Main
begin

section \<open>The two page-verification scripts\<close>

text \<open>
  The repository holds two Python scripts that drive a browser through the Playwright
  synchronous API: \<^verbatim>\<open>verification_script.py\<close> (function \<^verbatim>\<open>run_verification\<close>) and
  \<^verbatim>\<open>jules-scratch/verification/verify_refactor.py\<close> (function \<^verbatim>\<open>run\<close>).
  Both are straight-line sequences of library calls. The embedding keeps, for each run,
  the ordered record of the calls the script issues together with their outcomes, the
  lines it prints, and the directories and files the calls leave on disk. Whether a
  library call raises is not decided by the scripts: it is read from a \<open>world\<close>, which
  may answer differently depending on everything that happened before.
\<close>

subsection \<open>Library calls, exceptions and the world\<close>

text \<open>
  Exceptions derived from Python's \<^verbatim>\<open>Exception\<close> (every Playwright and OS error); the
  string is what \<^verbatim>\<open>str(e)\<close> gives. Signals that are not derived from \<^verbatim>\<open>Exception\<close>
  (keyboard interrupt, interpreter exit) are outside the model.
\<close>

datatype exn = Exception string

fun str :: "exn \<Rightarrow> string" where
  "str (Exception m) = m"

text \<open>
  One constructor for each library call the two scripts make, with the arguments the
  source passes. \<open>Launch (Some True)\<close> is \<^verbatim>\<open>launch(headless=True)\<close>, \<open>Launch None\<close> is
  \<^verbatim>\<open>launch()\<close>; \<open>Makedirs p b\<close> is \<^verbatim>\<open>os.makedirs(p, exist_ok=b)\<close>; \<open>SyncPlaywrightEnter\<close> and
  \<open>SyncPlaywrightExit\<close> are entry to and exit from the \<^verbatim>\<open>with sync_playwright() as p\<close> block.
\<close>

datatype call =
    Makedirs string bool
  | SyncPlaywrightEnter
  | Launch "bool option"
  | NewPage
  | SetViewportSize nat nat
  | Goto string
  | WaitForSelector string
  | Sleep nat
  | MouseMove int int
  | Screenshot string
  | BrowserClose
  | SyncPlaywrightExit

type_synonym event = "call \<times> exn option"

record world =
  raises :: "event list \<Rightarrow> call \<Rightarrow> exn option"
  render :: "event list \<Rightarrow> string"

record state =
  history :: "event list"
  stdout :: "string list"
  dirs :: "string set"
  files :: "string \<Rightarrow> string option"

type_synonym prog = "state \<Rightarrow> (exn + unit) \<times> state"

subsection \<open>Paths\<close>

text \<open>
  \<open>ancestors acc p\<close> lists every proper prefix of the path \<open>acc @ p\<close> that ends just before
  a \<^verbatim>\<open>/\<close> of \<open>p\<close>: the directories that must exist for the path to be created.
\<close>

fun ancestors :: "string \<Rightarrow> string \<Rightarrow> string list" where
  "ancestors acc [] = []"
| "ancestors acc (c # cs) =
     (if c = CHR ''/'' \<and> acc \<noteq> [] then [acc] else []) @ ancestors (acc @ [c]) cs"

definition parent_dirs :: "string \<Rightarrow> string list" where
  "parent_dirs p = ancestors [] p"

definition dirname :: "string \<Rightarrow> string" where
  "dirname p = (case rev (parent_dirs p) of [] \<Rightarrow> [] | d # _ \<Rightarrow> d)"

subsection \<open>Effects of the library calls\<close>

text \<open>
  Modelled from the spec: the body of Playwright's \<^verbatim>\<open>page.screenshot(path=...)\<close> is library
  code and not part of the repository. Following step 7 of the specification (\<open>write it
  to outputPath, creating parent directories if absent\<close>), a capture that returns writes
  the image rendered at that moment to the path and creates the path's missing parent
  directories.
\<close>

definition capture_to :: "world \<Rightarrow> string \<Rightarrow> state \<Rightarrow> state" where
  "capture_to w p s =
     s\<lparr>dirs := dirs s \<union> set (parent_dirs p), files := (files s)(p \<mapsto> render w (history s))\<rparr>"

text \<open>
  What a call that returns normally leaves on disk. \<^verbatim>\<open>os.makedirs\<close> creates the leaf
  directory and every missing intermediate one; the capture is as above; no other call
  of the scripts touches the disk.
\<close>

fun effect :: "world \<Rightarrow> call \<Rightarrow> state \<Rightarrow> state" where
  "effect w (Makedirs p ok) s = s\<lparr>dirs := dirs s \<union> set (parent_dirs p) \<union> {p}\<rparr>"
| "effect w (Screenshot p) s = capture_to w p s"
| "effect w c s = s"

text \<open>
  Issuing a call: the world decides, from the history so far, whether it raises. Either
  way the call and its outcome are appended to the history; only a call that returns has
  its effect.
\<close>

definition perform :: "world \<Rightarrow> call \<Rightarrow> prog" where
  "perform w c s =
     (case raises w (history s) c of
        Some e \<Rightarrow> (Inl e, s\<lparr>history := history s @ [(c, Some e)]\<rparr>)
      | None \<Rightarrow> (Inr (), (effect w c s)\<lparr>history := history s @ [(c, None)]\<rparr>))"

definition print :: "string \<Rightarrow> prog" where
  "print line s = (Inr (), s\<lparr>stdout := stdout s @ [line]\<rparr>)"

subsection \<open>Control flow\<close>

text \<open>A block of statements runs them in order and stops at the first that raises.\<close>

fun block :: "prog list \<Rightarrow> prog" where
  "block [] s = (Inr (), s)"
| "block (p # ps) s =
     (case p s of
        (Inl e, s') \<Rightarrow> (Inl e, s')
      | (Inr u, s') \<Rightarrow> block ps s')"

text \<open>
  \<^verbatim>\<open>try: body  except Exception as e: handler  finally: cleanup\<close>. The handler runs
  when the body raises; the cleanup runs on every path, and an exception raised by the
  cleanup replaces whatever outcome the \<^verbatim>\<open>try\<close>/\<^verbatim>\<open>except\<close> part had.
\<close>

definition try_except :: "prog \<Rightarrow> (exn \<Rightarrow> prog) \<Rightarrow> prog" where
  "try_except body handler s =
     (case body s of
        (Inl e, s') \<Rightarrow> handler e s'
      | (Inr u, s') \<Rightarrow> (Inr u, s'))"

definition try_finally :: "prog \<Rightarrow> prog \<Rightarrow> prog" where
  "try_finally body cleanup s =
     (case body s of
        (r, s') \<Rightarrow>
          (case cleanup s' of
             (Inl e, s'') \<Rightarrow> (Inl e, s'')
           | (Inr u, s'') \<Rightarrow> (r, s'')))"

text \<open>
  \<^verbatim>\<open>with sync_playwright() as p: body\<close>. If entering raises, the body does not run and
  there is no exit; otherwise the exit runs after the body on every path and does not
  suppress the body's exception.
\<close>

definition with_sync_playwright :: "world \<Rightarrow> prog \<Rightarrow> prog" where
  "with_sync_playwright w body =
     block [perform w SyncPlaywrightEnter, try_finally body (perform w SyncPlaywrightExit)]"

subsection \<open>\<^verbatim>\<open>verification_script.py\<close>\<close>

definition verification_dir :: string where
  "verification_dir = ''/home/jules/verification''"

definition target_url :: string where
  "target_url = ''http://localhost:8000''"

definition screenshot_path :: string where
  "screenshot_path = ''/home/jules/verification/background_check.png''"

definition try_body :: "world \<Rightarrow> prog list" where
  "try_body w =
     [print (''Navigating to '' @ target_url),
      perform w (Goto target_url),
      perform w (WaitForSelector ''#background-canvas''),
      print ''Background canvas found'',
      perform w (Sleep 2),
      perform w (MouseMove 640 360),
      perform w (Sleep 1),
      perform w (MouseMove 700 400),
      perform w (Sleep 1),
      perform w (Screenshot screenshot_path),
      print (''Screenshot saved to '' @ screenshot_path)]"

definition run_verification :: "world \<Rightarrow> prog" where
  "run_verification w =
     block
       [perform w (Makedirs verification_dir True),
        with_sync_playwright w
          (block
             [perform w (Launch (Some True)),
              perform w NewPage,
              perform w (SetViewportSize 1280 720),
              try_finally
                (try_except (block (try_body w)) (\<lambda>e. print (''Error: '' @ str e)))
                (perform w BrowserClose)])]"

subsection \<open>\<^verbatim>\<open>verify_refactor.py\<close>\<close>

definition refactor_path :: string where
  "refactor_path = ''jules-scratch/verification/verification.png''"

definition run :: "world \<Rightarrow> prog" where
  "run w =
     with_sync_playwright w
       (block
          [perform w (Launch None),
           perform w NewPage,
           perform w (Goto target_url),
           perform w (WaitForSelector ''#particles-js canvas''),
           perform w (Screenshot refactor_path),
           perform w BrowserClose])"

subsection \<open>The entry points\<close>

text \<open>
  \<^verbatim>\<open>if __name__ == "__main__": f()\<close>. When \<open>f\<close> returns, the interpreter exits with
  status 0; when an exception escapes \<open>f\<close>, the interpreter writes the traceback to the
  error stream (kept here as one line ending in the message) and exits with status 1.
\<close>

record process =
  exit_status :: nat
  stderr :: "string list"
  final :: state

definition main :: "prog \<Rightarrow> state \<Rightarrow> process" where
  "main f s =
     (case f s of
        (Inr u, s') \<Rightarrow> \<lparr>exit_status = 0, stderr = [], final = s'\<rparr>
      | (Inl e, s') \<Rightarrow> \<lparr>exit_status = 1, stderr = [''Traceback: '' @ str e], final = s'\<rparr>)"

definition verification_script_main :: "world \<Rightarrow> state \<Rightarrow> process" where
  "verification_script_main w = main (run_verification w)"

definition verify_refactor_main :: "world \<Rightarrow> state \<Rightarrow> process" where
  "verify_refactor_main w = main (run w)"

subsection \<open>Concrete worlds and states\<close>

definition fresh :: state where
  "fresh = \<lparr>history = [], stdout = [], dirs = {}, files = (\<lambda>p. None)\<rparr>"

text \<open>A world in which no call raises, and the page renders to a fixed image.\<close>

definition world_ok :: world where
  "world_ok = \<lparr>raises = (\<lambda>h c. None), render = (\<lambda>h. ''PNG'')\<rparr>"

text \<open>A world in which exactly the call \<open>c\<close> raises \<open>e\<close>.\<close>

definition world_failing :: "call \<Rightarrow> exn \<Rightarrow> world" where
  "world_failing c e =
     \<lparr>raises = (\<lambda>h c'. if c' = c then Some e else None), render = (\<lambda>h. ''PNG'')\<rparr>"

text \<open>A world in which exactly the calls \<open>c\<close> and \<open>d\<close> raise \<open>e\<close>.\<close>

definition world_failing_both :: "call \<Rightarrow> call \<Rightarrow> exn \<Rightarrow> world" where
  "world_failing_both c d e =
     \<lparr>raises = (\<lambda>h c'. if c' = c \<or> c' = d then Some e else None), render = (\<lambda>h. ''PNG'')\<rparr>"

definition refused :: exn where
  "refused = Exception ''net::ERR_CONNECTION_REFUSED''"

text \<open>A world in which no call raises and the rendered image grows with the history.\<close>

definition world_animated :: world where
  "world_animated = \<lparr>raises = (\<lambda>h c. None), render = (\<lambda>h. replicate (length h) CHR ''x'')\<rparr>"

text \<open>A disk on which both output paths already hold a file from an earlier run.\<close>

definition previous_output :: state where
  "previous_output =
     fresh\<lparr>files := (\<lambda>p. if p = screenshot_path \<or> p = refactor_path
                          then Some ''old image'' else None)\<rparr>"

subsection \<open>Reading a run\<close>

text \<open>
  The calls issued between two states of one run, with their outcomes, in the order
  issued: what the later history has beyond the earlier one.
\<close>

definition events_since :: "state \<Rightarrow> state \<Rightarrow> event list" where
  "events_since s s' = drop (length (history s)) (history s')"

text \<open>
  \<open>follows cs evs\<close>: the events are the calls \<open>cs\<close> issued one after the other from the
  first on, each issued only when the one before it has returned normally, and none
  issued after one that raised. The run may stop anywhere in the list.
\<close>

fun follows :: "call list \<Rightarrow> event list \<Rightarrow> bool" where
  "follows cs [] = True"
| "follows [] (ev # evs) = False"
| "follows (c # cs) ((c', r) # evs) =
     (c' = c \<and> (case r of None \<Rightarrow> follows cs evs | Some e \<Rightarrow> evs = []))"

text \<open>The library calls inside the \<^verbatim>\<open>try\<close> block of \<^verbatim>\<open>run_verification\<close>, in source order.\<close>

definition steps_vs :: "call list" where
  "steps_vs =
     [Goto target_url, WaitForSelector ''#background-canvas'', Sleep 2,
      MouseMove 640 360, Sleep 1, MouseMove 700 400, Sleep 1,
      Screenshot screenshot_path]"

text \<open>The page steps of \<^verbatim>\<open>run\<close>, in source order, up to and including the close.\<close>

definition steps_run :: "call list" where
  "steps_run =
     [Goto target_url, WaitForSelector ''#particles-js canvas'',
      Screenshot refactor_path, BrowserClose]"


fun is_mouse_move :: "call \<Rightarrow> bool" where
  "is_mouse_move (MouseMove x y) = True"
| "is_mouse_move c = False"

fun is_screenshot :: "call \<Rightarrow> bool" where
  "is_screenshot (Screenshot p) = True"
| "is_screenshot c = False"

fun is_set_viewport :: "call \<Rightarrow> bool" where
  "is_set_viewport (SetViewportSize x y) = True"
| "is_set_viewport c = False"

section \<open>Properties of the scripts\<close>

text \<open>
  Every property below that speaks of all runs is proved by following the script
  statement by statement: at each library call the world's answer is split into the
  call returning or raising, and the property is checked at the end of each path.
\<close>

lemmas exec_defs = with_sync_playwright_def try_finally_def try_except_def
  perform_def print_def capture_to_def

lemmas world_defs = world_ok_def world_failing_def world_failing_both_def world_animated_def
  fresh_def previous_output_def refused_def

lemmas read_defs = events_since_def steps_vs_def steps_run_def

lemmas eval_defs = run_verification_def run_def try_body_def exec_defs world_defs read_defs

subsection \<open>Which errors are caught\<close>

text \<open>
  Claim C1, as stated: every error raised during any step of a run (launch, navigation,
  selector wait, interaction, capture) is caught at the top level, logged, and
  converted into a failed result; no exception reaches the caller.

  This fails. \<^verbatim>\<open>run_verification\<close> launches the browser before its \<^verbatim>\<open>try\<close> block, so
  a launch error leaves the function with nothing printed; \<^verbatim>\<open>run\<close> has no handler at
  all, so a navigation error leaves it the same way.
\<close>

theorem launch_error_escapes:
  "fst (run_verification (world_failing (Launch (Some True)) refused) fresh) = Inl refused
   \<and> stdout (snd (run_verification (world_failing (Launch (Some True)) refused) fresh)) = []
   \<and> fst (run (world_failing (Goto target_url) refused) fresh) = Inl refused
   \<and> stdout (snd (run (world_failing (Goto target_url) refused) fresh)) = []"
  by (simp add: eval_defs)

text \<open>
  Claim C1, amended: in \<^verbatim>\<open>run_verification\<close>, an exception raised by a call of the
  \<^verbatim>\<open>try\<close> block (navigation, selector wait, a sleep, a pointer move, the capture) is
  caught and logged: the last line printed by the run is \<^verbatim>\<open>Error: \<close> followed by the
  exception's message. An exception that does leave \<^verbatim>\<open>run_verification\<close> was raised by
  a call outside the \<^verbatim>\<open>try\<close> block. No result value is built in either case.
\<close>

theorem errors_in_try_block_are_logged:
  "case run_verification w s of (r, s') \<Rightarrow>
     (\<forall>c e. (c, Some e) \<in> set (events_since s s') \<and> c \<in> set steps_vs
        \<longrightarrow> last (stdout s') = ''Error: '' @ str e)
   \<and> (\<forall>e. r = Inl e
        \<longrightarrow> (\<exists>c. c \<notin> set steps_vs \<and> (c, Some e) \<in> set (events_since s s')))"
    unfolding run_verification_def try_body_def
    apply (simp add: exec_defs)
    apply ((split option.split; intro conjI impI allI; simp add: exec_defs read_defs) | fastforce)+
    done

text \<open>
  Both hypotheses are met: a refused connection is raised inside the \<^verbatim>\<open>try\<close> block and
  logged; a failed launch is raised outside it and escapes.
\<close>

theorem errors_in_try_block_are_logged_witness:
  "(Goto target_url, Some refused)
      \<in> set (events_since fresh (snd (run_verification (world_failing (Goto target_url) refused) fresh)))
   \<and> Goto target_url \<in> set steps_vs
   \<and> last (stdout (snd (run_verification (world_failing (Goto target_url) refused) fresh))) = ''Error: net::ERR_CONNECTION_REFUSED''
   \<and> fst (run_verification (world_failing (Goto target_url) refused) fresh) = Inr ()
   \<and> fst (run_verification (world_failing (Launch (Some True)) refused) fresh) = Inl refused
   \<and> Launch (Some True) \<notin> set steps_vs
   \<and> (Launch (Some True), Some refused)
      \<in> set (events_since fresh (snd (run_verification (world_failing (Launch (Some True)) refused) fresh)))"
  using errors_in_try_block_are_logged [where w = "world_failing (Goto target_url) refused" and s = fresh]
    errors_in_try_block_are_logged [where w = "world_failing (Launch (Some True)) refused" and s = fresh]
  by (simp add: eval_defs)

subsection \<open>Release of the browser\<close>





text \<open>
  On the first two of these paths the release is the work of the block's exit alone:
  the explicit \<^verbatim>\<open>browser.close()\<close> is not among the calls issued, in \<^verbatim>\<open>run\<close> because it is
  the last statement of a block without \<^verbatim>\<open>try\<close>, in \<^verbatim>\<open>run_verification\<close> because the
  page is opened before the \<^verbatim>\<open>try\<close> begins.
\<close>

lemma close_call_skipped:
  "map fst (history (snd (run (world_failing (Goto target_url) refused) fresh)))
     = [SyncPlaywrightEnter, Launch None, NewPage, Goto target_url, SyncPlaywrightExit]
   \<and> fst (run (world_failing (Goto target_url) refused) fresh) = Inl refused
   \<and> map fst (history (snd (run_verification (world_failing NewPage refused) fresh)))
     = [Makedirs verification_dir True, SyncPlaywrightEnter, Launch (Some True),
        NewPage, SyncPlaywrightExit]
   \<and> fst (run_verification (world_failing NewPage refused) fresh) = Inl refused"
  by (simp add: eval_defs)

subsection \<open>Order of the steps\<close>

text \<open>
  Claim C3: in every run the steps execute in the fixed order navigate, wait for the
  readiness selector, settling delay, pointer interaction, capture, browser close; no
  step begins before the previous one has completed, and the screenshot is never
  captured before the readiness selector has matched.

  For \<^verbatim>\<open>run_verification\<close>: the calls of the \<^verbatim>\<open>try\<close> block that the run issues follow the
  source order, each after the previous one returned; no such call comes after the
  close; and either no capture is issued or the selector wait has returned normally
  before it. For \<^verbatim>\<open>run\<close>, which has no delay and no pointer step: the same for
  navigate, wait, capture, close.
\<close>

theorem steps_in_source_order:
  "(case run_verification w s of (r, s') \<Rightarrow>
      follows steps_vs (filter (\<lambda>ev. fst ev \<in> set steps_vs) (events_since s s'))
    \<and> filter (\<lambda>ev. fst ev \<in> set steps_vs)
         (dropWhile (\<lambda>ev. fst ev \<noteq> BrowserClose) (events_since s s')) = []
    \<and> (takeWhile (\<lambda>ev. fst ev \<noteq> Screenshot screenshot_path) (events_since s s')
          = events_since s s'
        \<or> (WaitForSelector ''#background-canvas'', None)
             \<in> set (takeWhile (\<lambda>ev. fst ev \<noteq> Screenshot screenshot_path)
                      (events_since s s'))))
   \<and> (case run w s of (r, s') \<Rightarrow>
      follows steps_run (filter (\<lambda>ev. fst ev \<in> set steps_run) (events_since s s'))
    \<and> (takeWhile (\<lambda>ev. fst ev \<noteq> Screenshot refactor_path) (events_since s s')
          = events_since s s'
        \<or> (WaitForSelector ''#particles-js canvas'', None)
             \<in> set (takeWhile (\<lambda>ev. fst ev \<noteq> Screenshot refactor_path)
                      (events_since s s'))))"
proof (rule conjI)
  show "case run_verification w s of (r, s') \<Rightarrow>
      follows steps_vs (filter (\<lambda>ev. fst ev \<in> set steps_vs) (events_since s s'))
    \<and> filter (\<lambda>ev. fst ev \<in> set steps_vs)
         (dropWhile (\<lambda>ev. fst ev \<noteq> BrowserClose) (events_since s s')) = []
    \<and> (takeWhile (\<lambda>ev. fst ev \<noteq> Screenshot screenshot_path) (events_since s s')
          = events_since s s'
        \<or> (WaitForSelector ''#background-canvas'', None)
             \<in> set (takeWhile (\<lambda>ev. fst ev \<noteq> Screenshot screenshot_path)
                      (events_since s s')))"
    unfolding run_verification_def try_body_def
    apply (simp add: exec_defs)
    apply ((split option.split; intro conjI impI allI; simp add: exec_defs read_defs) | fastforce)+
    done
  show "case run w s of (r, s') \<Rightarrow>
      follows steps_run (filter (\<lambda>ev. fst ev \<in> set steps_run) (events_since s s'))
    \<and> (takeWhile (\<lambda>ev. fst ev \<noteq> Screenshot refactor_path) (events_since s s')
          = events_since s s'
        \<or> (WaitForSelector ''#particles-js canvas'', None)
             \<in> set (takeWhile (\<lambda>ev. fst ev \<noteq> Screenshot refactor_path)
                      (events_since s s')))"
    unfolding run_def
    apply (simp add: exec_defs)
    apply ((split option.split; intro conjI impI allI; simp add: exec_defs read_defs) | fastforce)+
    done
qed

text \<open>When no call raises, every step of either script is issued, in this order.\<close>

theorem steps_in_source_order_witness:
  "filter (\<lambda>ev. fst ev \<in> set steps_vs)
      (events_since fresh (snd (run_verification world_ok fresh)))
     = map (\<lambda>c. (c, None)) steps_vs
   \<and> filter (\<lambda>ev. fst ev \<in> set steps_run) (events_since fresh (snd (run world_ok fresh)))
     = map (\<lambda>c. (c, None)) steps_run
   \<and> follows steps_vs (map (\<lambda>c. (c, None)) steps_vs)
   \<and> follows steps_run (map (\<lambda>c. (c, None)) steps_run)"
  using steps_in_source_order [where w = world_ok and s = fresh]
  by (simp add: eval_defs)

subsection \<open>A navigation that fails\<close>

text \<open>
  Claim C4, as stated: when navigation fails, the operation reports failure with error
  kind NavigationError, the capture is never reached, no screenshot file is created and
  an existing file at the output path is left untouched.

  The first part fails. When the connection is refused, \<^verbatim>\<open>run_verification\<close> returns
  exactly what a run without any error returns, and what it prints is the library's
  message behind \<^verbatim>\<open>Error: \<close>; \<^verbatim>\<open>run\<close> lets the library's exception through. Neither
  builds a result or names an error kind.
\<close>

theorem navigation_failure_returns_normally:
  "fst (run_verification (world_failing (Goto target_url) refused) fresh) = Inr ()
   \<and> fst (run_verification world_ok fresh) = Inr ()
   \<and> stdout (snd (run_verification (world_failing (Goto target_url) refused) fresh))
     = [''Navigating to http://localhost:8000'', ''Error: net::ERR_CONNECTION_REFUSED'']
   \<and> fst (run (world_failing (Goto target_url) refused) fresh) = Inl refused
   \<and> stdout (snd (run (world_failing (Goto target_url) refused) fresh)) = []"
  by (simp add: eval_defs target_url_def)

text \<open>
  Claim C4, amended: when the navigation raises, neither script issues the capture call
  and the files on disk are exactly those from before the run; \<^verbatim>\<open>run_verification\<close>
  prints \<^verbatim>\<open>Error: \<close> followed by the exception's message as its last line and returns
  normally unless the browser close or the exit of the Playwright block raises in turn;
  \<^verbatim>\<open>run\<close> ends with an exception.
\<close>

theorem failed_navigation:
  "(case run_verification w s of (r, s') \<Rightarrow>
      (\<forall>e. (Goto target_url, Some e) \<in> set (events_since s s') \<longrightarrow>
         filter (\<lambda>ev. is_screenshot (fst ev)) (events_since s s') = []
       \<and> files s' = files s
       \<and> last (stdout s') = ''Error: '' @ str e
       \<and> (r = Inr ()
           \<or> (\<exists>e'. r = Inl e' \<and> ((BrowserClose, Some e') \<in> set (events_since s s')
                \<or> (SyncPlaywrightExit, Some e') \<in> set (events_since s s'))))))
   \<and> (case run w s of (r, s') \<Rightarrow>
      (\<forall>e. (Goto target_url, Some e) \<in> set (events_since s s') \<longrightarrow>
         filter (\<lambda>ev. is_screenshot (fst ev)) (events_since s s') = []
       \<and> files s' = files s
       \<and> (\<exists>e'. r = Inl e')))"
proof (rule conjI)
  show "case run_verification w s of (r, s') \<Rightarrow>
      (\<forall>e. (Goto target_url, Some e) \<in> set (events_since s s') \<longrightarrow>
         filter (\<lambda>ev. is_screenshot (fst ev)) (events_since s s') = []
       \<and> files s' = files s
       \<and> last (stdout s') = ''Error: '' @ str e
       \<and> (r = Inr ()
           \<or> (\<exists>e'. r = Inl e' \<and> ((BrowserClose, Some e') \<in> set (events_since s s')
                \<or> (SyncPlaywrightExit, Some e') \<in> set (events_since s s')))))"
    unfolding run_verification_def try_body_def
    apply (simp add: exec_defs)
    apply ((split option.split; intro conjI impI allI; simp add: exec_defs read_defs) | fastforce)+
    done
  show "case run w s of (r, s') \<Rightarrow>
      (\<forall>e. (Goto target_url, Some e) \<in> set (events_since s s') \<longrightarrow>
         filter (\<lambda>ev. is_screenshot (fst ev)) (events_since s s') = []
       \<and> files s' = files s
       \<and> (\<exists>e'. r = Inl e'))"
    unfolding run_def
    apply (simp add: exec_defs)
    apply ((split option.split; intro conjI impI allI; simp add: exec_defs read_defs) | fastforce)+
    done
qed

text \<open>
  A refused connection on a disk that already holds both output files: the files are
  still the old ones after either script.
\<close>

theorem failed_navigation_witness:
  "(Goto target_url, Some refused)
      \<in> set (events_since previous_output (snd (run_verification (world_failing (Goto target_url) refused) previous_output)))
   \<and> files (snd (run_verification (world_failing (Goto target_url) refused) previous_output)) screenshot_path = Some ''old image''
   \<and> last (stdout (snd (run_verification (world_failing (Goto target_url) refused) previous_output)))
       = ''Error: net::ERR_CONNECTION_REFUSED''
   \<and> (Goto target_url, Some refused)
      \<in> set (events_since previous_output (snd (run (world_failing (Goto target_url) refused) previous_output)))
   \<and> files (snd (run (world_failing (Goto target_url) refused) previous_output)) refactor_path = Some ''old image''
   \<and> fst (run (world_failing (Goto target_url) refused) previous_output) = Inl refused"
  using failed_navigation [where w = "world_failing (Goto target_url) refused" and s = previous_output]
  by (simp add: eval_defs)

subsection \<open>The capture and its output path\<close>

text \<open>
  Claim C5: the capture step writes the screenshot to the configured output path,
  creating the path's parent directories if they are absent before, or as part of, the
  write.

  Every capture call of \<^verbatim>\<open>run_verification\<close> is for \<open>screenshot_path\<close> and every capture
  call of \<^verbatim>\<open>run\<close> is for \<open>refactor_path\<close>; a capture that returns leaves the image rendered
  at that moment at the path, with every parent directory of the path on disk. In
  \<^verbatim>\<open>run_verification\<close> the script itself has created the directory of the path before:
  the \<^verbatim>\<open>os.makedirs\<close> call has returned before any capture call, and its argument is
  the directory part of \<open>screenshot_path\<close>.
\<close>

theorem capture_writes_output_path:
  "(case run_verification w s of (r, s') \<Rightarrow>
      (\<forall>p x. (Screenshot p, x) \<in> set (events_since s s') \<longrightarrow>
         p = screenshot_path
       \<and> (Makedirs verification_dir True, None)
            \<in> set (takeWhile (\<lambda>ev. fst ev \<noteq> Screenshot p) (events_since s s')))
    \<and> ((Screenshot screenshot_path, None) \<in> set (events_since s s') \<longrightarrow>
         files s' screenshot_path
           = Some (render w (history s @ takeWhile (\<lambda>ev. fst ev \<noteq> Screenshot screenshot_path)
                                           (events_since s s')))
       \<and> set (parent_dirs screenshot_path) \<subseteq> dirs s'))
   \<and> (case run w s of (r, s') \<Rightarrow>
      (\<forall>p x. (Screenshot p, x) \<in> set (events_since s s') \<longrightarrow> p = refactor_path)
    \<and> ((Screenshot refactor_path, None) \<in> set (events_since s s') \<longrightarrow>
         files s' refactor_path
           = Some (render w (history s @ takeWhile (\<lambda>ev. fst ev \<noteq> Screenshot refactor_path)
                                           (events_since s s')))
       \<and> set (parent_dirs refactor_path) \<subseteq> dirs s'))
   \<and> dirname screenshot_path = verification_dir"
proof (intro conjI)
  show "case run_verification w s of (r, s') \<Rightarrow>
      (\<forall>p x. (Screenshot p, x) \<in> set (events_since s s') \<longrightarrow>
         p = screenshot_path
       \<and> (Makedirs verification_dir True, None)
            \<in> set (takeWhile (\<lambda>ev. fst ev \<noteq> Screenshot p) (events_since s s')))
    \<and> ((Screenshot screenshot_path, None) \<in> set (events_since s s') \<longrightarrow>
         files s' screenshot_path
           = Some (render w (history s @ takeWhile (\<lambda>ev. fst ev \<noteq> Screenshot screenshot_path)
                                           (events_since s s')))
       \<and> set (parent_dirs screenshot_path) \<subseteq> dirs s')"
    unfolding run_verification_def try_body_def
    apply (simp add: exec_defs)
    apply ((split option.split; intro conjI impI allI; simp add: exec_defs read_defs) | fastforce)+
    done
  show "case run w s of (r, s') \<Rightarrow>
      (\<forall>p x. (Screenshot p, x) \<in> set (events_since s s') \<longrightarrow> p = refactor_path)
    \<and> ((Screenshot refactor_path, None) \<in> set (events_since s s') \<longrightarrow>
         files s' refactor_path
           = Some (render w (history s @ takeWhile (\<lambda>ev. fst ev \<noteq> Screenshot refactor_path)
                                           (events_since s s')))
       \<and> set (parent_dirs refactor_path) \<subseteq> dirs s')"
    unfolding run_def
    apply (simp add: exec_defs)
    apply ((split option.split; intro conjI impI allI; simp add: exec_defs read_defs) | fastforce)+
    done
  show "dirname screenshot_path = verification_dir"
    by (simp add: dirname_def parent_dirs_def screenshot_path_def verification_dir_def)
qed

text \<open>
  On an empty disk, in a world where no call raises, both captures return and leave
  their file and its directory.
\<close>

theorem capture_writes_output_path_witness:
  "(Screenshot screenshot_path, None)
      \<in> set (events_since fresh (snd (run_verification world_ok fresh)))
   \<and> files (snd (run_verification world_ok fresh)) screenshot_path = Some ''PNG''
   \<and> ''/home/jules/verification'' \<in> dirs (snd (run_verification world_ok fresh))
   \<and> (Screenshot refactor_path, None) \<in> set (events_since fresh (snd (run world_ok fresh)))
   \<and> files (snd (run world_ok fresh)) refactor_path = Some ''PNG''
   \<and> ''jules-scratch/verification'' \<in> dirs (snd (run world_ok fresh))"
  using capture_writes_output_path [where w = world_ok and s = fresh]
  by (simp add: eval_defs parent_dirs_def screenshot_path_def refactor_path_def
        verification_dir_def)

subsection \<open>Running twice\<close>

text \<open>
  Claim C6: running the operation twice in a row with the same output path is safe: no
  state carries over between runs, the second run performs the same step sequence as
  the first, and its only additional effect is overwriting the screenshot file at the
  output path.

  Stated for \<^verbatim>\<open>run_verification\<close> in any world whose answers do not depend on what
  happened before (\<open>a\<close> gives the answer of each call), from any starting state: the
  second run returns what the first returned, issues the same calls with the same
  outcomes, prints the same lines, and leaves the same directories; the only file that
  can differ afterwards is the one at \<open>screenshot_path\<close>, which holds the image rendered
  during the second run whenever its capture returned.
\<close>

theorem second_run_repeats_first:
  "case run_verification \<lparr>raises = (\<lambda>h. a), render = rd\<rparr> s of (r1, s1) \<Rightarrow>
     (case run_verification \<lparr>raises = (\<lambda>h. a), render = rd\<rparr> s1 of (r2, s2) \<Rightarrow>
        r2 = r1
      \<and> events_since s1 s2 = events_since s s1
      \<and> drop (length (stdout s1)) (stdout s2) = drop (length (stdout s)) (stdout s1)
      \<and> dirs s2 = dirs s1
      \<and> (\<forall>p. p \<noteq> screenshot_path \<longrightarrow> files s2 p = files s1 p)
      \<and> ((Screenshot screenshot_path, None) \<in> set (events_since s1 s2) \<longrightarrow>
           files s2 screenshot_path
             = Some (rd (history s1 @ takeWhile (\<lambda>ev. fst ev \<noteq> Screenshot screenshot_path)
                                          (events_since s1 s2)))))"
    unfolding run_verification_def try_body_def
    apply (simp add: exec_defs)
    apply ((split option.split; intro conjI impI allI; simp add: exec_defs read_defs) | fastforce)+
    done

text \<open>
  Two runs on an empty disk in a world where the image changes with time: the second
  capture returns, the file is overwritten with a different image, and another path is
  as it was.
\<close>

theorem second_run_repeats_first_witness:
  "case run_verification world_animated fresh of (r1, s1) \<Rightarrow>
     (case run_verification world_animated s1 of (r2, s2) \<Rightarrow>
        r1 = Inr () \<and> r2 = Inr ()
      \<and> (Screenshot screenshot_path, None) \<in> set (events_since s1 s2)
      \<and> files s1 screenshot_path = Some ''xxxxxxxxxxxx''
      \<and> files s2 screenshot_path = Some ''xxxxxxxxxxxxxxxxxxxxxxxxxxx''
      \<and> refactor_path \<noteq> screenshot_path
      \<and> files s2 refactor_path = files s1 refactor_path
      \<and> dirs s2 = dirs s1)"
  using second_run_repeats_first
    [where a = "\<lambda>c. None" and rd = "\<lambda>h. replicate (length h) CHR ''x''" and s = fresh]
  by (simp add: eval_defs screenshot_path_def refactor_path_def)

subsection \<open>Exit status\<close>

lemma run_verification_returns:
  "case run_verification w s of (r, s') \<Rightarrow>
     (r = Inr ())
       = (filter (\<lambda>ev. snd ev \<noteq> None \<and> fst ev \<notin> set steps_vs) (events_since s s') = [])
   \<and> (filter (\<lambda>ev. snd ev \<noteq> None) (events_since s s') = []
      \<or> r \<noteq> Inr ()
      \<or> (\<exists>e. last (stdout s') = ''Error: '' @ str e))"
    unfolding run_verification_def try_body_def
    apply (simp add: exec_defs)
    apply ((split option.split; intro conjI impI allI; simp add: exec_defs read_defs) | fastforce)+
    done

lemma run_returns:
  "case run w s of (r, s') \<Rightarrow>
     (r = Inr ()) = (filter (\<lambda>ev. snd ev \<noteq> None) (events_since s s') = [])"
    unfolding run_def
    apply (simp add: exec_defs)
    apply ((split option.split; intro conjI impI allI; simp add: exec_defs read_defs) | fastforce)+
    done

text \<open>
  Claim C7, as stated: each entry point exits with status 0 on success; on failure it
  prints a diagnostic and exits either non-zero or zero while logging, and whichever of
  the two it is, it is the same convention in both scripts.

  The conventions differ: on the same refused connection \<^verbatim>\<open>verification_script.py\<close>
  exits with 0 and \<^verbatim>\<open>verify_refactor.py\<close> exits with 1.
\<close>

theorem exit_status_differs:
  "exit_status (verification_script_main (world_failing (Goto target_url) refused) fresh) = 0
   \<and> exit_status (verify_refactor_main (world_failing (Goto target_url) refused) fresh) = 1"
  by (simp add: verification_script_main_def verify_refactor_main_def main_def eval_defs)

text \<open>
  Claim C7, amended: \<^verbatim>\<open>verify_refactor.py\<close> exits with 0 exactly when no call raised and
  with 1, after a traceback, otherwise. \<^verbatim>\<open>verification_script.py\<close> exits with 0 exactly
  when no call outside the \<^verbatim>\<open>try\<close> block raised and with 1, after a traceback,
  otherwise; when a call raised and it still exits with 0, the last line it printed is
  an \<^verbatim>\<open>Error: \<close> line.
\<close>

theorem exit_status_conventions:
  "exit_status (verification_script_main w s) =
     (if filter (\<lambda>ev. snd ev \<noteq> None \<and> fst ev \<notin> set steps_vs)
           (events_since s (final (verification_script_main w s))) = [] then 0 else 1)
   \<and> (stderr (verification_script_main w s) = [])
       = (exit_status (verification_script_main w s) = 0)
   \<and> (filter (\<lambda>ev. snd ev \<noteq> None)
         (events_since s (final (verification_script_main w s))) = []
      \<or> stderr (verification_script_main w s) \<noteq> []
      \<or> (\<exists>e. last (stdout (final (verification_script_main w s))) = ''Error: '' @ str e))
   \<and> exit_status (verify_refactor_main w s) =
     (if filter (\<lambda>ev. snd ev \<noteq> None)
           (events_since s (final (verify_refactor_main w s))) = [] then 0 else 1)
   \<and> (stderr (verify_refactor_main w s) = []) = (exit_status (verify_refactor_main w s) = 0)"
  using run_verification_returns [where w = w and s = s] run_returns [where w = w and s = s]
  by (auto simp add: verification_script_main_def verify_refactor_main_def main_def
        split: prod.splits sum.splits)

text \<open>
  The refused connection again: a call raised, the first script leaves no traceback and
  ends its output with the error line; the second leaves a traceback.
\<close>

theorem exit_status_conventions_witness:
  "filter (\<lambda>ev. snd ev \<noteq> None)
      (events_since fresh (final (verification_script_main (world_failing (Goto target_url) refused) fresh)))
     = [(Goto target_url, Some refused)]
   \<and> stderr (verification_script_main (world_failing (Goto target_url) refused) fresh) = []
   \<and> last (stdout (final (verification_script_main (world_failing (Goto target_url) refused) fresh)))
       = ''Error: net::ERR_CONNECTION_REFUSED''
   \<and> exit_status (verification_script_main world_ok fresh) = 0
   \<and> stderr (verify_refactor_main (world_failing (Goto target_url) refused) fresh) = [''Traceback: net::ERR_CONNECTION_REFUSED'']
   \<and> exit_status (verify_refactor_main world_ok fresh) = 0"
  using exit_status_conventions [where w = "world_failing (Goto target_url) refused" and s = fresh]
    exit_status_conventions [where w = world_ok and s = fresh]
  by (simp add: verification_script_main_def verify_refactor_main_def main_def eval_defs)

subsection \<open>The viewport\<close>

text \<open>
  Claim C8: in every run where a viewport size is supplied, the viewport is set on the
  newly opened page before navigation to the target URL begins.

  \<^verbatim>\<open>run_verification\<close> supplies 1280 by 720: either the run issues no navigation, or the
  calls before the navigation are exactly the directory creation, the start of
  Playwright, the launch, the opening of the page and the setting of the viewport, all
  returned normally. \<^verbatim>\<open>run\<close> supplies no viewport and never sets one.
\<close>

theorem viewport_set_before_navigation:
  "(case run_verification w s of (r, s') \<Rightarrow>
      takeWhile (\<lambda>ev. fst ev \<noteq> Goto target_url) (events_since s s') = events_since s s'
    \<or> takeWhile (\<lambda>ev. fst ev \<noteq> Goto target_url) (events_since s s')
        = [(Makedirs verification_dir True, None), (SyncPlaywrightEnter, None),
           (Launch (Some True), None), (NewPage, None), (SetViewportSize 1280 720, None)])
   \<and> (case run w s of (r, s') \<Rightarrow>
      filter (\<lambda>ev. is_set_viewport (fst ev)) (events_since s s') = [])"
proof (rule conjI)
  show "case run_verification w s of (r, s') \<Rightarrow>
      takeWhile (\<lambda>ev. fst ev \<noteq> Goto target_url) (events_since s s') = events_since s s'
    \<or> takeWhile (\<lambda>ev. fst ev \<noteq> Goto target_url) (events_since s s')
        = [(Makedirs verification_dir True, None), (SyncPlaywrightEnter, None),
           (Launch (Some True), None), (NewPage, None), (SetViewportSize 1280 720, None)]"
    unfolding run_verification_def try_body_def
    apply (simp add: exec_defs)
    apply ((split option.split; intro conjI impI allI; simp add: exec_defs read_defs) | fastforce)+
    done
  show "case run w s of (r, s') \<Rightarrow>
      filter (\<lambda>ev. is_set_viewport (fst ev)) (events_since s s') = []"
    unfolding run_def
    apply (simp add: exec_defs)
    apply ((split option.split; intro conjI impI allI; simp add: exec_defs read_defs) | fastforce)+
    done
qed

text \<open>When no call raises, the navigation is issued, and the viewport was set before it.\<close>

theorem viewport_set_before_navigation_witness:
  "(Goto target_url, None) \<in> set (events_since fresh (snd (run_verification world_ok fresh)))
   \<and> takeWhile (\<lambda>ev. fst ev \<noteq> Goto target_url)
        (events_since fresh (snd (run_verification world_ok fresh)))
      = [(Makedirs verification_dir True, None), (SyncPlaywrightEnter, None),
         (Launch (Some True), None), (NewPage, None), (SetViewportSize 1280 720, None)]"
  using viewport_set_before_navigation [where w = world_ok and s = fresh]
  by (simp add: eval_defs)

subsection \<open>No interaction points\<close>

text \<open>
  Claim C9: for a run whose sequence of interaction points is empty, the pointer step
  moves nothing and the run still goes on to capture a screenshot; interaction is not
  required for success.

  \<^verbatim>\<open>run\<close> is the script without interaction points: it issues no pointer move; its
  calls up to the exit of the Playwright block are start, launch, open page, navigate,
  wait, capture, close, each after the previous one returned, so a selector wait that
  returns is followed by the capture; and a capture that returns leaves the image
  rendered at that moment at \<open>refactor_path\<close>.
\<close>

theorem no_pointer_moves_in_run:
  "case run w s of (r, s') \<Rightarrow>
     filter (\<lambda>ev. is_mouse_move (fst ev)) (events_since s s') = []
   \<and> follows [SyncPlaywrightEnter, Launch None, NewPage, Goto target_url,
               WaitForSelector ''#particles-js canvas'', Screenshot refactor_path, BrowserClose]
        (takeWhile (\<lambda>ev. fst ev \<noteq> SyncPlaywrightExit) (events_since s s'))
   \<and> ((WaitForSelector ''#particles-js canvas'', None) \<in> set (events_since s s') \<longrightarrow>
        (\<exists>x. (Screenshot refactor_path, x) \<in> set (events_since s s')))
   \<and> ((Screenshot refactor_path, None) \<in> set (events_since s s') \<longrightarrow>
        files s' refactor_path
          = Some (render w (history s @ takeWhile (\<lambda>ev. fst ev \<noteq> Screenshot refactor_path)
                                          (events_since s s'))))"
    unfolding run_def
    apply (simp add: exec_defs)
    apply ((split option.split; intro conjI impI allI; simp add: exec_defs read_defs) | fastforce)+
    done

text \<open>When no call raises, the run succeeds and the file is there.\<close>

theorem no_pointer_moves_in_run_witness:
  "(WaitForSelector ''#particles-js canvas'', None)
      \<in> set (events_since fresh (snd (run world_ok fresh)))
   \<and> (Screenshot refactor_path, None) \<in> set (events_since fresh (snd (run world_ok fresh)))
   \<and> files (snd (run world_ok fresh)) refactor_path = Some ''PNG''
   \<and> fst (run world_ok fresh) = Inr ()"
  using no_pointer_moves_in_run [where w = world_ok and s = fresh]
  by (simp add: eval_defs)

subsection \<open>The output directory\<close>

text \<open>
  Claim C10: every invocation of \<^verbatim>\<open>run_verification\<close> creates the directory
  \<^verbatim>\<open>/home/jules/verification\<close>, with \<^verbatim>\<open>exist_ok\<close>, before the browser is launched, so the
  directory is created on every run, also on runs that later fail at navigation,
  selector wait or capture and write no screenshot.

  The first call of every run is \<^verbatim>\<open>os.makedirs\<close> for that directory with
  \<^verbatim>\<open>exist_ok=True\<close>; when it returns, the directory is on disk at the end of the run
  whatever happens later; a launch is only ever issued after it has returned; and no
  run removes a directory.
\<close>

theorem makedirs_on_every_run:
  "case run_verification w s of (r, s') \<Rightarrow>
     (\<exists>x. take 1 (events_since s s') = [(Makedirs verification_dir True, x)])
   \<and> (take 1 (events_since s s') = [(Makedirs verification_dir True, None)] \<longrightarrow>
        verification_dir \<in> dirs s')
   \<and> ((\<exists>x. (Launch (Some True), x) \<in> set (events_since s s')) \<longrightarrow>
        take 1 (events_since s s') = [(Makedirs verification_dir True, None)])
   \<and> dirs s \<subseteq> dirs s'"
    unfolding run_verification_def try_body_def
    apply (simp add: exec_defs)
    apply ((split option.split; intro conjI impI allI; simp add: exec_defs read_defs) | fastforce)+
    done

text \<open>
  The refused connection on an empty disk: the run fails at the navigation and writes
  no screenshot, and the directory is there.
\<close>

theorem makedirs_on_every_run_witness:
  "take 1 (events_since fresh (snd (run_verification (world_failing (Goto target_url) refused) fresh)))
     = [(Makedirs verification_dir True, None)]
   \<and> (Launch (Some True), None) \<in> set (events_since fresh (snd (run_verification (world_failing (Goto target_url) refused) fresh)))
   \<and> verification_dir \<in> dirs (snd (run_verification (world_failing (Goto target_url) refused) fresh))
   \<and> files (snd (run_verification (world_failing (Goto target_url) refused) fresh)) screenshot_path = None"
  using makedirs_on_every_run [where w = "world_failing (Goto target_url) refused" and s = fresh]
  by (simp add: eval_defs)

end
